theory Spec2Isabelle
  imports Main "HOL-Library.Word"
begin

section \<open>Values, errors and the database seen from the adapter\<close>

text \<open>
  The repository is a thin data-access layer over \<open>database/sql\<close>: the file
  \<open>internal/user/repository/adapter/adapter.go\<close> holds the seven operations of
  \<open>UserAdapter\<close>, \<open>internal/user/handler/handler.go\<close> the HTTP handler that calls them
  through a service interface. Go's \<open>int64\<close> is a 64-bit word read as two's complement.
\<close>

type_synonym int64 = "64 word"

text \<open>A value of Go's \<open>interface{}\<close>, as far as SQL arguments and JSON payloads carry one.\<close>

datatype val = VNil | VStr string | VInt int64 | VBool bool

text \<open>
  Go's \<open>error\<close>. The adapter creates no error value of its own: every error it returns was
  handed to it by \<open>database/sql\<close> or the driver, here \<open>DriverError\<close> with the driver's
  message. \<open>ValidationError\<close> and \<open>ConstraintError\<close> are the classified kinds that the
  specification names (section 7); no line of the adapter constructs either.
\<close>

datatype error =
    is_DriverError: DriverError string
  | is_ValidationError: ValidationError string
  | is_ConstraintError: ConstraintError string

fun Error :: "error \<Rightarrow> string" where
  "Error (DriverError m) = m"
| "Error (ValidationError m) = m"
| "Error (ConstraintError m) = m"

text \<open>
  \<open>context.Context\<close>, as far as the adapter uses it: it may carry a transaction handle.
  \<open>GetTx\<close> chooses between that transaction and the pooled connection.
\<close>

type_synonym ctx = "nat option"

datatype conn = Pool | Tx nat

text \<open>
  Modelled from the spec: the record type \<open>model.User\<close> and the filter type
  \<open>model.UserFilter\<close> (package \<open>model\<close> is not among the sources). The fields are those of
  the documented JSON shapes: a user has id, username, email, phone and dateOfBirth; a
  filter has the reserved keys page, limit and sort of the embedded \<open>search.Filter\<close> and
  the domain criteria of the documented example (email prefix, dateOfBirth range).
\<close>

record user =
  user_Id :: string
  Username :: string
  Email :: string
  Phone :: string
  DateOfBirth :: "string option"

record user_filter =
  Page :: int64
  Limit :: int64
  Sort :: string
  EmailPrefix :: "string option"
  DateOfBirthMin :: "string option"
  DateOfBirthMax :: "string option"

text \<open>
  Every call that reaches the database is recorded, in order: \<open>ExecContext\<close> on the
  connection \<open>GetTx\<close> returned, \<open>QueryRowContext\<close> and the library's \<open>Query\<close> on the pool.
  "No SQL is executed" means that an operation returns the trace it was given.
\<close>

datatype db_call =
    ExecCall conn string "val list"
  | QueryRowCall string "val list"
  | QueryCall string "val list"

fun is_QueryRowCall :: "db_call \<Rightarrow> bool" where
  "is_QueryRowCall (QueryRowCall q a) = True"
| "is_QueryRowCall c = False"

text \<open>\<open>sql.Result\<close>: \<open>RowsAffected()\<close> returns a count and an error.\<close>

record sql_result =
  RowsAffected :: "int64 \<times> error option"

text \<open>
  \<open>*sql.Row\<close>: \<open>Err()\<close> is the error of the query; \<open>Scan(&total)\<close> takes the current value
  of \<open>total\<close> and returns the value it holds afterwards together with Scan's error.
\<close>

record sql_row =
  Err :: "error option"
  Scan :: "int64 \<Rightarrow> int64 \<times> error option"

text \<open>
  The database is an external collaborator: its answers are parameters. Each answer may
  depend on everything executed so far (the trace) and on the statement and its arguments.
  \<open>Query\<close> is \<open>s.Query\<close> of core-go/sql, which runs a statement on the pool and appends the
  decoded rows to the slice it is given; it also takes the column index \<open>r.Map\<close>.
\<close>

record db =
  ExecContext :: "db_call list \<Rightarrow> conn \<Rightarrow> string \<Rightarrow> val list \<Rightarrow> error + sql_result"
  QueryRowContext :: "db_call list \<Rightarrow> string \<Rightarrow> val list \<Rightarrow> sql_row"
  Query :: "db_call list \<Rightarrow> (string \<times> nat) list \<Rightarrow> string \<Rightarrow> val list
              \<Rightarrow> user list \<times> error option"

text \<open>
  \<open>s.Parameters\<close> of core-go/sql, the metadata \<open>CreateParameters\<close> derives from the record
  type: the fields the adapter reads.
\<close>

record parameters =
  Map :: "(string \<times> nat) list"
  Fields :: string
  Keys :: "string list"
  JsonColumnMap :: "(string \<times> string) list"
  BuildParam :: "int \<Rightarrow> string"

text \<open>
  The functions of core-go/sql that the adapter calls. They are not code of this
  repository: the operations take them as parameters, with the signatures of the call
  sites. A JSON payload (\<open>map[string]interface{}\<close>) is the list of its members.
\<close>

record lib =
  BuildToInsert :: "string \<Rightarrow> user \<Rightarrow> (int \<Rightarrow> string) \<Rightarrow> string \<times> val list"
  BuildToUpdate :: "string \<Rightarrow> user \<Rightarrow> (int \<Rightarrow> string) \<Rightarrow> string \<times> val list"
  JSONToColumns :: "(string \<times> val) list \<Rightarrow> (string \<times> string) list \<Rightarrow> (string \<times> val) list"
  BuildToPatch :: "string \<Rightarrow> (string \<times> val) list \<Rightarrow> string list \<Rightarrow> (int \<Rightarrow> string)
                     \<Rightarrow> string \<times> val list"
  GetTx :: "ctx \<Rightarrow> conn"
  BuildPagingQuery :: "string \<Rightarrow> int64 \<Rightarrow> int64 \<Rightarrow> string"
  BuildCountQuery :: "string \<Rightarrow> string"

record UserAdapter =
  DB :: db
  BuildQuery :: "user_filter \<Rightarrow> string \<times> val list"
  Parameters :: parameters

section \<open>The operations of UserAdapter\<close>

type_synonym trace = "db_call list"

definition AllUsers :: "UserAdapter \<Rightarrow> ctx \<Rightarrow> trace \<Rightarrow> (user list \<times> error option) \<times> trace" where
  "AllUsers r c t =
     (let query = ''select * from users'';
          (users, err) = Query (DB r) t (Map (Parameters r)) query []
      in ((users, err), t @ [QueryCall query []]))"

definition Load :: "UserAdapter \<Rightarrow> ctx \<Rightarrow> string \<Rightarrow> trace
    \<Rightarrow> (user option \<times> error option) \<times> trace" where
  "Load r c ident t =
     (let query = ''select '' @ Fields (Parameters r) @ '' from users where id = ''
                    @ BuildParam (Parameters r) 1 @ '' limit 1'';
          (users, err) = Query (DB r) t (Map (Parameters r)) query [VStr ident];
          t' = t @ [QueryCall query [VStr ident]]
      in if err \<noteq> None then ((None, err), t')
         else if 0 < length users then ((Some (users ! 0), None), t')
         else ((None, None), t'))"

definition Create :: "lib \<Rightarrow> UserAdapter \<Rightarrow> ctx \<Rightarrow> user \<Rightarrow> trace
    \<Rightarrow> (int64 \<times> error option) \<times> trace" where
  "Create l r c u t =
     (let (query, args) = BuildToInsert l ''users'' u (BuildParam (Parameters r));
          tx = GetTx l c
      in case ExecContext (DB r) t tx query args of
           Inl err \<Rightarrow> ((- 1, Some err), t @ [ExecCall tx query args])
         | Inr res \<Rightarrow> (RowsAffected res, t @ [ExecCall tx query args]))"

definition Update :: "lib \<Rightarrow> UserAdapter \<Rightarrow> ctx \<Rightarrow> user \<Rightarrow> trace
    \<Rightarrow> (int64 \<times> error option) \<times> trace" where
  "Update l r c u t =
     (let (query, args) = BuildToUpdate l ''users'' u (BuildParam (Parameters r));
          tx = GetTx l c
      in case ExecContext (DB r) t tx query args of
           Inl err \<Rightarrow> ((- 1, Some err), t @ [ExecCall tx query args])
         | Inr res \<Rightarrow> (RowsAffected res, t @ [ExecCall tx query args]))"

definition Patch :: "lib \<Rightarrow> UserAdapter \<Rightarrow> ctx \<Rightarrow> (string \<times> val) list \<Rightarrow> trace
    \<Rightarrow> (int64 \<times> error option) \<times> trace" where
  "Patch l r c payload t =
     (let colMap = JSONToColumns l payload (JsonColumnMap (Parameters r));
          (query, args) = BuildToPatch l ''users'' colMap (Keys (Parameters r))
                            (BuildParam (Parameters r));
          tx = GetTx l c
      in case ExecContext (DB r) t tx query args of
           Inl err \<Rightarrow> ((- 1, Some err), t @ [ExecCall tx query args])
         | Inr res \<Rightarrow> (RowsAffected res, t @ [ExecCall tx query args]))"

definition Delete :: "lib \<Rightarrow> UserAdapter \<Rightarrow> ctx \<Rightarrow> string \<Rightarrow> trace
    \<Rightarrow> (int64 \<times> error option) \<times> trace" where
  "Delete l r c ident t =
     (let query = ''delete from users where id = '' @ BuildParam (Parameters r) 1;
          tx = GetTx l c
      in case ExecContext (DB r) t tx query [VStr ident] of
           Inl err \<Rightarrow> ((- 1, Some err), t @ [ExecCall tx query [VStr ident]])
         | Inr res \<Rightarrow> (RowsAffected res, t @ [ExecCall tx query [VStr ident]]))"

definition Search :: "lib \<Rightarrow> UserAdapter \<Rightarrow> ctx \<Rightarrow> user_filter \<Rightarrow> int64 \<Rightarrow> int64 \<Rightarrow> trace
    \<Rightarrow> (user list \<times> int64 \<times> error option) \<times> trace" where
  "Search l r c flt limit offset t =
     (if sint limit \<le> 0 then (([], 0, None), t)
      else
        let (query, params) = BuildQuery r flt;
            pagingQuery = BuildPagingQuery l query limit offset;
            countQuery = BuildCountQuery l query;
            row = QueryRowContext (DB r) t countQuery params;
            t1 = t @ [QueryRowCall countQuery params]
        in case Err row of
             Some e \<Rightarrow> (([], 0, Some e), t1)
           | None \<Rightarrow>
               let (total, err) = Scan row 0
               in if err \<noteq> None \<or> total = 0 then (([], total, err), t1)
                  else
                    let (users, err2) = Query (DB r) t1 (Map (Parameters r)) pagingQuery params
                    in ((users, total, err2), t1 @ [QueryCall pagingQuery params]))"

section \<open>The library functions, for worked instances\<close>

text \<open>
  The theorems below hold for every library and every database. Their instances need
  concrete ones. \<open>strings.Join\<close> and \<open>strconv.FormatInt\<close> are Go's.
\<close>

fun join :: "string \<Rightarrow> string list \<Rightarrow> string" where
  "join sep [] = []"
| "join sep [x] = x"
| "join sep (x # y # ys) = x @ sep @ join sep (y # ys)"

fun string_of_nat :: "nat \<Rightarrow> string" where
  "string_of_nat n =
     (if n < 10 then [''0123456789'' ! n]
      else string_of_nat (n div 10) @ [''0123456789'' ! (n mod 10)])"

declare string_of_nat.simps [simp del]

definition FormatInt :: "int \<Rightarrow> string" where
  "FormatInt i = (if i < 0 then ''-'' @ string_of_nat (nat (- i)) else string_of_nat (nat i))"

text \<open>
  Modelled from the spec: the parameter binder of section 4.2 in its numbered form
  (\<open>$1, $2, ...\<close>), a pure function of the position.
\<close>

definition BuildDollarParam :: "int \<Rightarrow> string" where
  "BuildDollarParam i = ''$'' @ FormatInt i"

fun params_from :: "(int \<Rightarrow> string) \<Rightarrow> int \<Rightarrow> 'a list \<Rightarrow> string list" where
  "params_from bp i [] = []"
| "params_from bp i (x # xs) = bp i # params_from bp (i + 1) xs"

text \<open>
  The WHERE clause as the specification words it (sections 3 and 8): the key columns, each
  compared with its placeholder, AND-ed, in the order given. The placeholders are numbered
  from \<open>i\<close>.
\<close>

definition where_of_keys :: "(int \<Rightarrow> string) \<Rightarrow> int \<Rightarrow> string list \<Rightarrow> string" where
  "where_of_keys bp i keys =
     join '' and '' (map (\<lambda>(k, p). k @ '' = '' @ p) (zip keys (params_from bp i keys)))"

text \<open>
  Modelled from the spec: the metadata of the record type (section 3): the columns of a
  user in declaration order with their values, and the primary-key column \<open>id\<close>.
\<close>

definition user_columns :: "user \<Rightarrow> (string \<times> val) list" where
  "user_columns u =
     [(''id'', VStr (user_Id u)), (''username'', VStr (Username u)),
      (''email'', VStr (Email u)), (''phone'', VStr (Phone u)),
      (''date_of_birth'', case DateOfBirth u of None \<Rightarrow> VNil | Some d \<Rightarrow> VStr d)]"

definition user_keys :: "string list" where
  "user_keys = [''id'']"

text \<open>
  Modelled from the spec: \<open>BuildToInsert\<close> and \<open>BuildToUpdate\<close> of core-go/sql, after
  section 4.3. The insert emits all columns, arguments in column order; the update sets
  all non-key columns and selects the row by the key columns in declared order.
\<close>

definition BuildToInsert_spec :: "string \<Rightarrow> user \<Rightarrow> (int \<Rightarrow> string) \<Rightarrow> string \<times> val list" where
  "BuildToInsert_spec table u bp =
     (let cols = user_columns u
      in (''insert into '' @ table @ '' ('' @ join '', '' (map fst cols) @ '') values (''
            @ join '', '' (params_from bp 1 cols) @ '')'',
          map snd cols))"

definition BuildToUpdate_spec :: "string \<Rightarrow> user \<Rightarrow> (int \<Rightarrow> string) \<Rightarrow> string \<times> val list" where
  "BuildToUpdate_spec table u bp =
     (let cols = user_columns u;
          sets = filter (\<lambda>(k, v). k \<notin> set user_keys) cols;
          keys = filter (\<lambda>(k, v). k \<in> set user_keys) cols
      in (''update '' @ table @ '' set ''
            @ join '', '' (map (\<lambda>(k, p). k @ '' = '' @ p)
                 (zip (map fst sets) (params_from bp 1 sets)))
            @ '' where '' @ where_of_keys bp (1 + int (length sets)) (map fst keys),
          map snd sets @ map snd keys))"

text \<open>
  Modelled from the spec: \<open>JSONToColumns\<close> and \<open>BuildToPatch\<close> of core-go/sql, after
  section 4.4. The call site gives \<open>JSONToColumns\<close> no error result, so the instance is the
  lenient mode the section allows: a member whose key maps to no column is left out. The
  patch sets only the present non-key columns and selects the row by the key columns.
\<close>

definition JSONToColumns_spec :: "(string \<times> val) list \<Rightarrow> (string \<times> string) list
    \<Rightarrow> (string \<times> val) list" where
  "JSONToColumns_spec payload m =
     concat (map (\<lambda>(k, v). case map_of m k of None \<Rightarrow> [] | Some col \<Rightarrow> [(col, v)]) payload)"

definition BuildToPatch_spec :: "string \<Rightarrow> (string \<times> val) list \<Rightarrow> string list
    \<Rightarrow> (int \<Rightarrow> string) \<Rightarrow> string \<times> val list" where
  "BuildToPatch_spec table colMap keys bp =
     (let sets = filter (\<lambda>(k, v). k \<notin> set keys) colMap
      in (''update '' @ table @ '' set ''
            @ join '', '' (map (\<lambda>(k, p). k @ '' = '' @ p)
                 (zip (map fst sets) (params_from bp 1 sets)))
            @ '' where '' @ where_of_keys bp (1 + int (length sets)) keys,
          map snd sets
            @ map (\<lambda>k. case map_of colMap k of None \<Rightarrow> VNil | Some v \<Rightarrow> v) keys))"

text \<open>
  Modelled from the spec: \<open>GetTx\<close> of core-go/sql, after section 4.7: the transaction
  attached to the context if there is one, otherwise the pooled connection.
\<close>

definition GetTx_spec :: "ctx \<Rightarrow> conn" where
  "GetTx_spec c = (case c of None \<Rightarrow> Pool | Some n \<Rightarrow> Tx n)"

text \<open>
  Modelled from the spec: \<open>BuildPagingQuery\<close> and \<open>BuildCountQuery\<close> of core-go/sql, after
  section 4.6: the paged query appends the row-window clause; the count query keeps the
  base query from its FROM on, without ORDER BY, under \<open>count(*)\<close>.
\<close>

definition BuildPagingQuery_spec :: "string \<Rightarrow> int64 \<Rightarrow> int64 \<Rightarrow> string" where
  "BuildPagingQuery_spec query limit offset =
     query @ '' limit '' @ FormatInt (sint limit) @ '' offset '' @ FormatInt (sint offset)"

fun from_clause :: "string \<Rightarrow> string" where
  "from_clause [] = []"
| "from_clause (x # xs) = (if take 6 (x # xs) = '' from '' then x # xs else from_clause xs)"

fun without_order_by :: "string \<Rightarrow> string" where
  "without_order_by [] = []"
| "without_order_by (x # xs) =
     (if take 10 (x # xs) = '' order by '' then [] else x # without_order_by xs)"

definition BuildCountQuery_spec :: "string \<Rightarrow> string" where
  "BuildCountQuery_spec query = ''select count(*)'' @ from_clause (without_order_by query)"

definition spec_lib :: lib where
  "spec_lib =
     \<lparr>BuildToInsert = BuildToInsert_spec, BuildToUpdate = BuildToUpdate_spec,
      JSONToColumns = JSONToColumns_spec, BuildToPatch = BuildToPatch_spec,
      GetTx = GetTx_spec, BuildPagingQuery = BuildPagingQuery_spec,
      BuildCountQuery = BuildCountQuery_spec\<rparr>"

subsection \<open>A users table, an adapter and databases with fixed answers\<close>

definition users_parameters :: parameters where
  "users_parameters =
     \<lparr>Map = [(''id'', 0), (''username'', 1), (''email'', 2), (''phone'', 3),
             (''date_of_birth'', 4)],
      Fields = ''id, username, email, phone, date_of_birth'',
      Keys = [''id''],
      JsonColumnMap = [(''id'', ''id''), (''username'', ''username''), (''email'', ''email''),
                       (''phone'', ''phone''), (''dateOfBirth'', ''date_of_birth'')],
      BuildParam = BuildDollarParam\<rparr>"

text \<open>A query builder as \<open>NewUserAdapter\<close> receives one: it filters by email prefix.\<close>

definition email_BuildQuery :: "user_filter \<Rightarrow> string \<times> val list" where
  "email_BuildQuery f =
     (case EmailPrefix f of
        None \<Rightarrow> (''select * from users'', [])
      | Some e \<Rightarrow> (''select * from users where email like $1'', [VStr (e @ ''%'')]))"

text \<open>
  A database that gives the same answers whatever it is asked: \<open>ex\<close> to every
  \<open>ExecContext\<close>, the row \<open>rw\<close> to every \<open>QueryRowContext\<close>, \<open>rs\<close> to every \<open>Query\<close>.
\<close>

definition fixed_db :: "error + sql_result \<Rightarrow> sql_row \<Rightarrow> user list \<times> error option \<Rightarrow> db" where
  "fixed_db ex rw rs =
     \<lparr>ExecContext = (\<lambda>t c q a. ex), QueryRowContext = (\<lambda>t q a. rw),
      Query = (\<lambda>t m q a. rs)\<rparr>"

definition count_row :: "int64 \<Rightarrow> sql_row" where
  "count_row n = \<lparr>Err = None, Scan = (\<lambda>total. (n, None))\<rparr>"

definition users_adapter :: "db \<Rightarrow> UserAdapter" where
  "users_adapter d = \<lparr>DB = d, BuildQuery = email_BuildQuery, Parameters = users_parameters\<rparr>"

definition wolverine :: user where
  "wolverine =
     \<lparr>user_Id = ''wolverine'', Username = ''james.howlett'',
      Email = ''james.howlett@gmail.com'', Phone = ''0987654321'',
      DateOfBirth = Some ''1974-11-16T16:59:59.999Z''\<rparr>"

definition tony_filter :: user_filter where
  "tony_filter =
     \<lparr>Page = 1, Limit = 20, Sort = ''phone,-id'', EmailPrefix = Some ''tony'',
      DateOfBirthMin = None, DateOfBirthMax = None\<rparr>"

text \<open>
  The databases of the worked instances: one where a write matches no row, one where it
  changes one row, one that is down, and one that rejects a write because the key exists.
\<close>

definition no_match_db :: db where
  "no_match_db = fixed_db (Inr \<lparr>RowsAffected = (0, None)\<rparr>) (count_row 0) ([], None)"

definition one_row_db :: db where
  "one_row_db = fixed_db (Inr \<lparr>RowsAffected = (1, None)\<rparr>) (count_row 1) ([wolverine], None)"

definition down_db :: db where
  "down_db =
     fixed_db (Inl (DriverError ''connection refused''))
       \<lparr>Err = Some (DriverError ''connection refused''),
        Scan = (\<lambda>total. (total, Some (DriverError ''connection refused'')))\<rparr>
       ([], Some (DriverError ''connection refused''))"

definition duplicate_db :: db where
  "duplicate_db =
     fixed_db (Inl (DriverError ''duplicate key value violates unique constraint users_pkey''))
       (count_row 1) ([wolverine], None)"

text \<open>
  A database whose driver executes the statement but reports an error from
  \<open>RowsAffected\<close>, together with a count.
\<close>

definition rows_error_db :: db where
  "rows_error_db =
     fixed_db (Inr \<lparr>RowsAffected = (3, Some (DriverError ''RowsAffected not available''))\<rparr>)
       (count_row 1) ([wolverine], None)"

text \<open>A database where 41 users match, the last of them alone on the third page of 20.\<close>

definition page_db :: db where
  "page_db = fixed_db (Inr \<lparr>RowsAffected = (1, None)\<rparr>) (count_row 41) ([wolverine], None)"

section \<open>Reading statements and results\<close>

text \<open>The statement of a recorded call, and the text of a statement after its \<open>where\<close>.\<close>

fun statement_of :: "db_call \<Rightarrow> string" where
  "statement_of (ExecCall c q a) = q"
| "statement_of (QueryRowCall q a) = q"
| "statement_of (QueryCall q a) = q"

fun where_clause :: "string \<Rightarrow> string" where
  "where_clause [] = []"
| "where_clause (x # xs) =
     (if take 7 (x # xs) = '' where '' then drop 7 (x # xs) else where_clause xs)"

text \<open>
  A word of a statement: a token without a blank that is not the keyword \<open>where\<close>.
  Column names and placeholders are words. The SET list of an update statement, read as
  the words between its blanks (the empty list leaves one empty word).
\<close>

definition is_word :: "string \<Rightarrow> bool" where
  "is_word w = (CHR '' '' \<notin> set w \<and> w \<noteq> ''where'')"

fun set_words :: "(string \<times> string) list \<Rightarrow> string list" where
  "set_words [] = [[]]"
| "set_words [(k, p)] = [k, ''='', p]"
| "set_words ((k, p) # x # xs) = [k, ''='', p @ '',''] @ set_words (x # xs)"

text \<open>Whether the result of a write carries an error of the kind \<open>ConstraintError\<close>.\<close>

definition returns_ConstraintError :: "int64 \<times> error option \<Rightarrow> bool" where
  "returns_ConstraintError res = (case snd res of None \<Rightarrow> False | Some e \<Rightarrow> is_ConstraintError e)"

section \<open>The handler's search\<close>

text \<open>
  Modelled from the spec: \<open>search.GetOffset\<close> of core-go/search, which the handler calls
  and which is not among the sources. Section 4.6: \<open>offset = limit * (max(page,1) - 1)\<close>,
  here in Go's \<open>int64\<close> arithmetic.
\<close>

definition max64 :: "int64 \<Rightarrow> int64 \<Rightarrow> int64" where
  "max64 a b = (if sint a < sint b then b else a)"

definition GetOffset :: "int64 \<Rightarrow> int64 \<Rightarrow> int64" where
  "GetOffset limit page = limit * (max64 page 1 - 1)"

text \<open>
  The request carries its context and its raw query or body; the response is either
  \<open>http.Error\<close> with a message and a status, or the JSON of a \<open>search.Result\<close> (the list
  and the total) with a status.
\<close>

record http_request =
  Ctx :: ctx
  Raw :: string

datatype http_response =
    HttpError string nat
  | JSON nat "user list" int64

text \<open>\<open>model.UserFilter{Filter: &search.Filter{}}\<close>: every field has its zero value.\<close>

definition empty_filter :: user_filter where
  "empty_filter =
     \<lparr>Page = 0, Limit = 0, Sort = [], EmailPrefix = None, DateOfBirthMin = None,
      DateOfBirthMax = None\<rparr>"

text \<open>
  \<open>UserHandler.Search\<close>. \<open>decode\<close> is \<open>search.Decode\<close> with the handler's indexes: it fills
  the filter from the request and may fail. \<open>svc\<close> is the \<open>Search\<close> of the service behind
  the handler, an interface value.
\<close>

definition Handler_Search ::
  "(http_request \<Rightarrow> user_filter \<Rightarrow> user_filter \<times> error option)
   \<Rightarrow> (ctx \<Rightarrow> user_filter \<Rightarrow> int64 \<Rightarrow> int64 \<Rightarrow> trace
        \<Rightarrow> (user list \<times> int64 \<times> error option) \<times> trace)
   \<Rightarrow> http_request \<Rightarrow> trace \<Rightarrow> http_response \<times> trace" where
  "Handler_Search decode svc req t =
     (let (flt, err) = decode req empty_filter
      in case err of
           Some e \<Rightarrow> (HttpError (Error e) 400, t)
         | None \<Rightarrow>
             (let offset = GetOffset (Limit flt) (Page flt);
                  ((users, total, err2), t') = svc (Ctx req) flt (Limit flt) offset t
              in (case err2 of
                    Some e \<Rightarrow> (HttpError (Error e) 500, t')
                  | None \<Rightarrow> (JSON 200 users total, t'))))"

text \<open>A decoder that reads page 3 of the documented example request.\<close>

definition tony_decode :: "http_request \<Rightarrow> user_filter \<Rightarrow> user_filter \<times> error option" where
  "tony_decode req f = (f\<lparr>Page := 3, Limit := 20, EmailPrefix := Some ''tony''\<rparr>, None)"

definition tony_request :: http_request where
  "tony_request = \<lparr>Ctx = None, Raw = ''page=3&limit=20&email=tony''\<rparr>"

section \<open>What each operation does, step by step\<close>

lemma Search_positive:
  assumes "0 < sint limit"
  shows "Search l r c flt limit offset t =
     (let query = fst (BuildQuery r flt); params = snd (BuildQuery r flt);
          row = QueryRowContext (DB r) t (BuildCountQuery l query) params;
          t1 = t @ [QueryRowCall (BuildCountQuery l query) params]
      in case Err row of
           Some e \<Rightarrow> (([], 0, Some e), t1)
         | None \<Rightarrow>
             if snd (Scan row 0) \<noteq> None \<or> fst (Scan row 0) = 0
             then (([], fst (Scan row 0), snd (Scan row 0)), t1)
             else ((fst (Query (DB r) t1 (Map (Parameters r))
                           (BuildPagingQuery l query limit offset) params),
                    fst (Scan row 0),
                    snd (Query (DB r) t1 (Map (Parameters r))
                           (BuildPagingQuery l query limit offset) params)),
                   t1 @ [QueryCall (BuildPagingQuery l query limit offset) params]))"
  using assms by (simp add: Search_def Let_def split: prod.splits option.splits)

lemma Create_result:
  "BuildToInsert l ''users'' u (BuildParam (Parameters r)) = (q, a) \<Longrightarrow>
   Create l r c u t =
     (case ExecContext (DB r) t (GetTx l c) q a of
        Inl e \<Rightarrow> (- 1, Some e) | Inr res \<Rightarrow> RowsAffected res,
      t @ [ExecCall (GetTx l c) q a])"
  by (simp add: Create_def Let_def split: sum.splits)

lemma Update_result:
  "BuildToUpdate l ''users'' u (BuildParam (Parameters r)) = (q, a) \<Longrightarrow>
   Update l r c u t =
     (case ExecContext (DB r) t (GetTx l c) q a of
        Inl e \<Rightarrow> (- 1, Some e) | Inr res \<Rightarrow> RowsAffected res,
      t @ [ExecCall (GetTx l c) q a])"
  by (simp add: Update_def Let_def split: sum.splits)

lemma Patch_result:
  "BuildToPatch l ''users'' (JSONToColumns l payload (JsonColumnMap (Parameters r)))
     (Keys (Parameters r)) (BuildParam (Parameters r)) = (q, a) \<Longrightarrow>
   Patch l r c payload t =
     (case ExecContext (DB r) t (GetTx l c) q a of
        Inl e \<Rightarrow> (- 1, Some e) | Inr res \<Rightarrow> RowsAffected res,
      t @ [ExecCall (GetTx l c) q a])"
  by (simp add: Patch_def Let_def split: sum.splits)

lemma Delete_result:
  "Delete l r c ident t =
     (case ExecContext (DB r) t (GetTx l c)
             (''delete from users where id = '' @ BuildParam (Parameters r) 1) [VStr ident] of
        Inl e \<Rightarrow> (- 1, Some e) | Inr res \<Rightarrow> RowsAffected res,
      t @ [ExecCall (GetTx l c)
             (''delete from users where id = '' @ BuildParam (Parameters r) 1) [VStr ident]])"
  by (simp add: Delete_def Let_def split: sum.splits)

subsection \<open>The worked instances, evaluated\<close>

lemma dollar:
  "BuildDollarParam 1 = ''$1''" "BuildDollarParam 2 = ''$2''" "BuildDollarParam 3 = ''$3''"
  "BuildDollarParam 4 = ''$4''" "BuildDollarParam 5 = ''$5''"
  by (simp_all add: BuildDollarParam_def FormatInt_def string_of_nat.simps)

lemma users_adapter_sel:
  "DB (users_adapter d) = d"
  "BuildQuery (users_adapter d) = email_BuildQuery"
  "Parameters (users_adapter d) = users_parameters"
  by (simp_all add: users_adapter_def)

lemma users_parameters_sel:
  "BuildParam users_parameters = BuildDollarParam"
  "Keys users_parameters = [''id'']"
  "Fields users_parameters = ''id, username, email, phone, date_of_birth''"
  by (simp_all add: users_parameters_def)

lemma fixed_db_sel:
  "ExecContext (fixed_db ex rw rs) t c q a = ex"
  "QueryRowContext (fixed_db ex rw rs) t q a = rw"
  "Query (fixed_db ex rw rs) t m q a = rs"
  by (simp_all add: fixed_db_def)

lemma GetTx_pool: "GetTx spec_lib None = Pool"
  by (simp add: spec_lib_def GetTx_spec_def)

lemma insert_wolverine:
  "BuildToInsert spec_lib ''users'' wolverine BuildDollarParam
     = (''insert into users (id, username, email, phone, date_of_birth) values ($1, $2, $3, $4, $5)'',
        [VStr ''wolverine'', VStr ''james.howlett'', VStr ''james.howlett@gmail.com'',
         VStr ''0987654321'', VStr ''1974-11-16T16:59:59.999Z''])"
  by (simp add: spec_lib_def BuildToInsert_spec_def user_columns_def wolverine_def dollar)

lemma update_wolverine:
  "BuildToUpdate spec_lib ''users'' wolverine BuildDollarParam
     = (''update users set username = $1, email = $2, phone = $3, date_of_birth = $4 where id = $5'',
        [VStr ''james.howlett'', VStr ''james.howlett@gmail.com'', VStr ''0987654321'',
         VStr ''1974-11-16T16:59:59.999Z'', VStr ''wolverine''])"
  by (simp add: spec_lib_def BuildToUpdate_spec_def user_columns_def user_keys_def wolverine_def
        where_of_keys_def dollar)

lemma patch_phone:
  "BuildToPatch spec_lib ''users''
     (JSONToColumns spec_lib [(''id'', VStr ''wolverine''), (''phone'', VStr ''0987654321'')]
        (JsonColumnMap users_parameters)) [''id''] BuildDollarParam
     = (''update users set phone = $1 where id = $2'', [VStr ''0987654321'', VStr ''wolverine''])"
  by (simp add: spec_lib_def BuildToPatch_spec_def JSONToColumns_spec_def users_parameters_def
        where_of_keys_def dollar)

lemma patch_empty:
  "BuildToPatch spec_lib ''users''
     (JSONToColumns spec_lib [] (JsonColumnMap users_parameters)) [''id''] BuildDollarParam
     = (''update users set  where id = $1'', [VNil])"
  by (simp add: spec_lib_def BuildToPatch_spec_def JSONToColumns_spec_def users_parameters_def
        where_of_keys_def dollar)

lemma patch_unknown:
  "BuildToPatch spec_lib ''users''
     (JSONToColumns spec_lib
        [(''id'', VStr ''wolverine''), (''phone'', VStr ''0987654321''), (''unknownField'', VInt 1)]
        (JsonColumnMap users_parameters)) [''id''] BuildDollarParam
     = (''update users set phone = $1 where id = $2'', [VStr ''0987654321'', VStr ''wolverine''])"
  by (simp add: spec_lib_def BuildToPatch_spec_def JSONToColumns_spec_def users_parameters_def
        where_of_keys_def dollar)

lemmas sel_simps =
  users_adapter_sel users_parameters_sel fixed_db_sel GetTx_pool dollar

subsection \<open>Finding the WHERE clause of a built statement\<close>

lemma where_clause_skip:
  "CHR '' '' \<notin> set s \<Longrightarrow> where_clause (s @ r) = where_clause r"
  by (induction s) auto

lemma list5:
  "length s < 6 \<Longrightarrow> s = [] \<or> (\<exists>a. s = [a]) \<or> (\<exists>a b. s = [a, b]) \<or> (\<exists>a b c. s = [a, b, c])
     \<or> (\<exists>a b c d. s = [a, b, c, d]) \<or> (\<exists>a b c d e. s = [a, b, c, d, e])"
proof -
  assume l: "length s < 6"
  show ?thesis
  proof (cases s)
    case Nil then show ?thesis by simp
  next
    case s1: (Cons a s1)
    show ?thesis
    proof (cases s1)
      case Nil with s1 show ?thesis by simp
    next
      case s2: (Cons b s2)
      show ?thesis
      proof (cases s2)
        case Nil with s1 s2 show ?thesis by simp
      next
        case s3: (Cons c s3)
        show ?thesis
        proof (cases s3)
          case Nil with s1 s2 s3 show ?thesis by simp
        next
          case s4: (Cons d s4)
          show ?thesis
          proof (cases s4)
            case Nil with s1 s2 s3 s4 show ?thesis by simp
          next
            case s5: (Cons e s5)
            with l s1 s2 s3 s4 have "s5 = []" by simp
            with s1 s2 s3 s4 s5 show ?thesis by simp
          qed
        qed
      qed
    qed
  qed
qed

lemma not_where_word:
  assumes "CHR '' '' \<notin> set s" "s \<noteq> ''where''"
  shows "take 6 (s @ CHR '' '' # r) \<noteq> ''where ''"
proof
  assume eq: "take 6 (s @ CHR '' '' # r) = ''where ''"
  show False
  proof (cases "length s < 6")
    case False
    then have "take 6 (s @ CHR '' '' # r) = take 6 s" by simp
    with eq have "take 6 s = ''where ''" by simp
    then have "set (take 6 s) = set ''where ''" by simp
    then have "CHR '' '' \<in> set (take 6 s)" by simp
    then have "CHR '' '' \<in> set s" by (rule in_set_takeD)
    with assms show False by simp
  next
    case True
    from list5 [OF True] eq assms show False
      by (elim disjE exE) simp_all
  qed
qed

lemma where_clause_word:
  assumes "is_word w"
  shows "where_clause (CHR '' '' # w @ CHR '' '' # r) = where_clause (CHR '' '' # r)"
proof -
  from assms have n: "CHR '' '' \<notin> set w" and "w \<noteq> ''where''"
    by (simp_all add: is_word_def)
  then have "take 6 (w @ CHR '' '' # r) \<noteq> ''where ''" by (rule not_where_word)
  then have "where_clause (CHR '' '' # w @ CHR '' '' # r) = where_clause (w @ CHR '' '' # r)"
    by (simp add: take_Cons')
  with n show ?thesis by (simp add: where_clause_skip)
qed

lemma where_clause_words:
  assumes "\<forall>w \<in> set ws. is_word w"
  shows "where_clause (concat (map ((#) CHR '' '') ws) @ '' where '' @ r) = r"
  using assms
proof (induction ws)
  case Nil
  show ?case by simp
next
  case (Cons w ws)
  from Cons.prems have w: "is_word w" and ws: "\<forall>w \<in> set ws. is_word w"
    by simp_all
  note ih = Cons.IH [OF ws]
  obtain rest where rest: "concat (map ((#) CHR '' '') ws) @ '' where '' @ r = CHR '' '' # rest"
    by (cases ws) auto
  have eq: "concat (map ((#) CHR '' '') (w # ws)) @ '' where '' @ r
              = CHR '' '' # w @ CHR '' '' # rest"
    using rest by simp
  have "where_clause (concat (map ((#) CHR '' '') (w # ws)) @ '' where '' @ r)
          = where_clause (CHR '' '' # w @ CHR '' '' # rest)"
    by (simp only: eq)
  also have "\<dots> = where_clause (CHR '' '' # rest)" by (rule where_clause_word [OF w])
  also have "\<dots> = r" using ih by (simp only: rest)
  finally show ?case .
qed

lemma set_words_text:
  "CHR '' '' # join '', '' (map (\<lambda>(k, p). k @ '' = '' @ p) as)
     = concat (map ((#) CHR '' '') (set_words as))"
  by (induction as rule: set_words.induct) simp_all

lemma is_word_comma:
  assumes "is_word p"
  shows "is_word (p @ '','')"
proof -
  have "p @ '','' \<noteq> ''where''"
  proof
    assume "p @ '','' = ''where''"
    then have "last (p @ '','') = last ''where''" by (rule arg_cong)
    then show False by simp
  qed
  with assms show ?thesis by (simp add: is_word_def)
qed

lemma is_word_eq: "is_word ''=''"
  by (simp add: is_word_def)

lemma is_word_empty: "is_word []"
  by (simp add: is_word_def)

lemma set_words_are_words:
  assumes "\<forall>x \<in> set as. is_word (fst x) \<and> is_word (snd x)"
  shows "\<forall>w \<in> set (set_words as). is_word w"
  using assms
proof (induction as rule: set_words.induct)
  case 1
  show ?case by (simp add: is_word_empty)
next
  case (2 k p)
  then show ?case by (simp add: is_word_eq)
next
  case (3 k p x xs)
  from "3.prems" have rest: "\<forall>x \<in> set (x # xs). is_word (fst x) \<and> is_word (snd x)"
    and k: "is_word k" and p: "is_word p"
    by simp_all
  from "3.IH" [OF rest] k is_word_comma [OF p] show ?case
    by (simp add: is_word_eq)
qed

lemma where_clause_update:
  assumes "is_word table" and "\<forall>x \<in> set as. is_word (fst x) \<and> is_word (snd x)"
  shows "where_clause (''update '' @ table @ '' set ''
           @ join '', '' (map (\<lambda>(k, p). k @ '' = '' @ p) as) @ '' where '' @ W) = W"
proof -
  let ?ws = "[table, ''set''] @ set_words as"
  have shape: "''update '' @ table @ '' set ''
                @ join '', '' (map (\<lambda>(k, p). k @ '' = '' @ p) as) @ '' where '' @ W
              = ''update'' @ (concat (map ((#) CHR '' '') ?ws) @ '' where '' @ W)"
    by (simp add: set_words_text [symmetric])
  have ws: "\<forall>w \<in> set ?ws. is_word w"
    using assms(1) set_words_are_words [OF assms(2)] by (simp add: is_word_def)
  have "where_clause (''update'' @ (concat (map ((#) CHR '' '') ?ws) @ '' where '' @ W))
          = where_clause (concat (map ((#) CHR '' '') ?ws) @ '' where '' @ W)"
    by (rule where_clause_skip) simp
  also have "\<dots> = W" by (rule where_clause_words [OF ws])
  finally show ?thesis by (simp only: shape)
qed

lemma params_from_range:
  "p \<in> set (params_from bp i xs) \<Longrightarrow> \<exists>j. p = bp j"
  by (induction xs arbitrary: i) auto

lemma assignments_are_words:
  assumes "\<forall>i. is_word (bp i)" and "\<forall>k \<in> set ks. is_word k"
  shows "\<forall>x \<in> set (zip ks (params_from bp i xs)). is_word (fst x) \<and> is_word (snd x)"
proof
  fix x assume x: "x \<in> set (zip ks (params_from bp i xs))"
  obtain k p where kp: "x = (k, p)" by (cases x)
  from x kp have "k \<in> set ks" and "p \<in> set (params_from bp i xs)"
    by (auto dest: set_zip_leftD set_zip_rightD)
  with assms params_from_range [of p bp i xs] kp
  show "is_word (fst x) \<and> is_word (snd x)" by auto
qed

lemma BuildToPatch_spec_where:
  assumes "\<forall>i. is_word (bp i)" and "\<forall>k \<in> set (map fst colMap). is_word k"
  shows "where_clause (fst (BuildToPatch_spec ''users'' colMap keys bp))
           = where_of_keys bp (1 + int (length (filter (\<lambda>(k, v). k \<notin> set keys) colMap))) keys"
proof -
  let ?sets = "filter (\<lambda>(k, v). k \<notin> set keys) colMap"
  let ?as = "zip (map fst ?sets) (params_from bp 1 ?sets)"
  have t: "fst (BuildToPatch_spec ''users'' colMap keys bp)
             = ''update '' @ ''users'' @ '' set ''
                 @ join '', '' (map (\<lambda>(k, p). k @ '' = '' @ p) ?as)
                 @ '' where '' @ where_of_keys bp (1 + int (length ?sets)) keys"
    by (simp add: BuildToPatch_spec_def Let_def)
  have k: "\<forall>k \<in> set (map fst ?sets). is_word k"
    using assms(2) by auto
  have u: "is_word ''users''" by (simp add: is_word_def)
  show ?thesis
    by (simp only: t) (rule where_clause_update [OF u assignments_are_words [OF assms(1) k]])
qed

lemma BuildToUpdate_spec_where:
  assumes "\<forall>i. is_word (bp i)"
  shows "where_clause (fst (BuildToUpdate_spec ''users'' u bp)) = where_of_keys bp 5 user_keys"
proof -
  let ?as = "[(''username'', bp 1), (''email'', bp 2), (''phone'', bp 3),
              (''date_of_birth'', bp 4)]"
  have t: "fst (BuildToUpdate_spec ''users'' u bp)
             = ''update '' @ ''users'' @ '' set ''
                 @ join '', '' (map (\<lambda>(k, p). k @ '' = '' @ p) ?as)
                 @ '' where '' @ where_of_keys bp 5 user_keys"
    by (simp add: BuildToUpdate_spec_def Let_def user_columns_def user_keys_def)
  have a: "\<forall>x \<in> set ?as. is_word (fst x) \<and> is_word (snd x)"
    using assms by (simp add: is_word_def)
  have u: "is_word ''users''" by (simp add: is_word_def)
  show ?thesis
    by (simp only: t) (rule where_clause_update [OF u a])
qed

lemma JSONToColumns_spec_columns:
  assumes "k \<in> set (map fst (JSONToColumns_spec payload m))"
  shows "k \<in> set (map snd m)"
proof -
  from assms obtain j v where "(j, v) \<in> set payload" and "map_of m j = Some k"
    by (auto simp: JSONToColumns_spec_def split: option.splits)
  then have "(j, k) \<in> set m" by (auto dest: map_of_SomeD)
  then show ?thesis by force
qed

lemma string_of_nat_digits: "set (string_of_nat n) \<subseteq> set ''0123456789''"
proof (induction n rule: string_of_nat.induct)
  case (1 n)
  show ?case
  proof (cases "n < 10")
    case True
    then have "''0123456789'' ! n \<in> set ''0123456789''" by (intro nth_mem) simp
    with True show ?thesis by (subst string_of_nat.simps) simp
  next
    case False
    have "n mod 10 < 10" by simp
    then have "''0123456789'' ! (n mod 10) \<in> set ''0123456789''" by (intro nth_mem) simp
    with False 1 show ?thesis by (subst string_of_nat.simps) simp
  qed
qed

lemma BuildDollarParam_is_word: "is_word (BuildDollarParam i)"
proof -
  have "CHR '' '' \<notin> set (string_of_nat n)" for n
    using string_of_nat_digits [of n] by auto
  then show ?thesis by (simp add: is_word_def BuildDollarParam_def FormatInt_def)
qed

section \<open>Search\<close>

text \<open>
  C1. For every filter and every offset, \<open>Search\<close> with \<open>limit \<le> 0\<close> executes no SQL
  (the trace is returned as it was given: neither a count query nor a paged query) and
  returns an empty record sequence, total 0 and no error.
\<close>

theorem Search_limit_not_positive:
  assumes "sint limit \<le> 0"
  shows "Search l r c flt limit offset t = (([], 0, None), t)"
  using assms by (simp add: Search_def)

theorem Search_limit_not_positive_witness:
  "sint (0 :: int64) \<le> 0 \<and> sint (- 5 :: int64) \<le> 0
   \<and> Search spec_lib (users_adapter (fixed_db (Inl (DriverError ''down'')) (count_row 7)
         ([wolverine], None))) None tony_filter 0 40 [] = (([], 0, None), [])
   \<and> Search spec_lib (users_adapter (fixed_db (Inl (DriverError ''down'')) (count_row 7)
         ([wolverine], None))) None tony_filter (- 5) 0 [] = (([], 0, None), [])"
proof -
  have z: "sint (0 :: int64) \<le> 0" by simp
  have m: "sint (- 5 :: int64) \<le> 0" by simp
  show ?thesis
    using z m Search_limit_not_positive [OF z] Search_limit_not_positive [OF m] by simp
qed

text \<open>
  C3. For every \<open>Search\<close> with \<open>limit > 0\<close> the count query is executed exactly once: the
  only \<open>QueryRowContext\<close> call added to the trace is the count query of the built query.
  When it returns total 0, the paged query is not executed (the count query is the only
  call added) and \<open>Search\<close> returns an empty record sequence with total 0.
\<close>

theorem Search_count_once:
  assumes "0 < sint limit"
  shows "filter is_QueryRowCall (snd (Search l r c flt limit offset t))
           = filter is_QueryRowCall t
               @ [QueryRowCall (BuildCountQuery l (fst (BuildQuery r flt))) (snd (BuildQuery r flt))]
         \<and> (Err (QueryRowContext (DB r) t (BuildCountQuery l (fst (BuildQuery r flt)))
                   (snd (BuildQuery r flt))) = None
              \<and> fst (Scan (QueryRowContext (DB r) t (BuildCountQuery l (fst (BuildQuery r flt)))
                   (snd (BuildQuery r flt))) 0) = 0
            \<longrightarrow> Search l r c flt limit offset t
                  = (([], 0, snd (Scan (QueryRowContext (DB r) t
                        (BuildCountQuery l (fst (BuildQuery r flt))) (snd (BuildQuery r flt))) 0)),
                     t @ [QueryRowCall (BuildCountQuery l (fst (BuildQuery r flt)))
                            (snd (BuildQuery r flt))]))"
  by (simp add: Search_positive [OF assms] Let_def split: option.splits)

theorem Search_count_once_witness:
  "0 < sint (20 :: int64)
   \<and> Err (QueryRowContext no_match_db []
        ''select count(*) from users where email like $1'' [VStr ''tony%'']) = None
   \<and> fst (Scan (QueryRowContext no_match_db []
        ''select count(*) from users where email like $1'' [VStr ''tony%'']) 0) = 0
   \<and> Search spec_lib (users_adapter no_match_db) None tony_filter 20 0 []
       = (([], 0, None),
          [QueryRowCall ''select count(*) from users where email like $1'' [VStr ''tony%'']])"
proof -
  let ?r = "users_adapter no_match_db"
  have p: "0 < sint (20 :: int64)" by simp
  have q: "email_BuildQuery tony_filter
             = (''select * from users where email like $1'', [VStr ''tony%''])"
    by (simp add: email_BuildQuery_def tony_filter_def)
  have cq: "BuildCountQuery spec_lib ''select * from users where email like $1''
              = ''select count(*) from users where email like $1''"
    by (simp add: spec_lib_def BuildCountQuery_spec_def)
  have row: "QueryRowContext no_match_db t s a = count_row 0" for t s a
    by (simp add: no_match_db_def fixed_db_def)
  have cr: "Err (count_row 0) = None" "Scan (count_row 0) 0 = (0, None)"
    by (simp_all add: count_row_def)
  show ?thesis
    using p Search_count_once [OF p, of spec_lib ?r None tony_filter 0 "[]"]
    by (simp add: q cq users_adapter_sel row cr)
qed

section \<open>Writes\<close>

text \<open>
  C6. An \<open>Update\<close>, \<open>Patch\<close> or \<open>Delete\<close> whose statement executes successfully but matches
  no row (\<open>ExecContext\<close> succeeds and \<open>RowsAffected\<close> reports 0 and no error) returns
  rowsAffected 0 and a nil error: not-found is the zero count, not an error value.
\<close>

theorem no_row_matched_is_zero_and_nil:
  "(BuildToUpdate l ''users'' u (BuildParam (Parameters r)) = (qu, au)
      \<longrightarrow> ExecContext (DB r) t (GetTx l c) qu au = Inr \<lparr>RowsAffected = (0, None)\<rparr>
      \<longrightarrow> fst (Update l r c u t) = (0, None))
   \<and> (BuildToPatch l ''users'' (JSONToColumns l payload (JsonColumnMap (Parameters r)))
         (Keys (Parameters r)) (BuildParam (Parameters r)) = (qp, ap)
      \<longrightarrow> ExecContext (DB r) t (GetTx l c) qp ap = Inr \<lparr>RowsAffected = (0, None)\<rparr>
      \<longrightarrow> fst (Patch l r c payload t) = (0, None))
   \<and> (ExecContext (DB r) t (GetTx l c)
         (''delete from users where id = '' @ BuildParam (Parameters r) 1) [VStr ident]
         = Inr \<lparr>RowsAffected = (0, None)\<rparr>
      \<longrightarrow> fst (Delete l r c ident t) = (0, None))"
  by (simp add: Update_result Patch_result Delete_result)

theorem no_row_matched_is_zero_and_nil_witness:
  "ExecContext (DB (users_adapter no_match_db)) [] (GetTx spec_lib None)
       ''update users set username = $1, email = $2, phone = $3, date_of_birth = $4 where id = $5''
       [VStr ''james.howlett'', VStr ''james.howlett@gmail.com'', VStr ''0987654321'',
        VStr ''1974-11-16T16:59:59.999Z'', VStr ''wolverine'']
     = Inr \<lparr>RowsAffected = (0, None)\<rparr>
   \<and> fst (Update spec_lib (users_adapter no_match_db) None wolverine []) = (0, None)
   \<and> ExecContext (DB (users_adapter no_match_db)) [] (GetTx spec_lib None)
       ''update users set phone = $1 where id = $2'' [VStr ''0987654321'', VStr ''wolverine'']
     = Inr \<lparr>RowsAffected = (0, None)\<rparr>
   \<and> fst (Patch spec_lib (users_adapter no_match_db) None
            [(''id'', VStr ''wolverine''), (''phone'', VStr ''0987654321'')] []) = (0, None)
   \<and> ExecContext (DB (users_adapter no_match_db)) [] (GetTx spec_lib None)
       ''delete from users where id = $1'' [VStr ''wolverine'']
     = Inr \<lparr>RowsAffected = (0, None)\<rparr>
   \<and> fst (Delete spec_lib (users_adapter no_match_db) None ''wolverine'' []) = (0, None)"
  using no_row_matched_is_zero_and_nil
    [where l = spec_lib and r = "users_adapter no_match_db" and c = None and t = "[]"
       and u = wolverine
       and qu = "''update users set username = $1, email = $2, phone = $3, date_of_birth = $4 where id = $5''"
       and au = "[VStr ''james.howlett'', VStr ''james.howlett@gmail.com'', VStr ''0987654321'',
                  VStr ''1974-11-16T16:59:59.999Z'', VStr ''wolverine'']"
       and payload = "[(''id'', VStr ''wolverine''), (''phone'', VStr ''0987654321'')]"
       and qp = "''update users set phone = $1 where id = $2''"
       and ap = "[VStr ''0987654321'', VStr ''wolverine'']"
       and ident = "''wolverine''"]
  by (simp add: sel_simps update_wolverine patch_phone no_match_db_def)

text \<open>
  C10, as the specification states it: a write whose SQL execution fails returns
  rowsAffected -1 with the error, so that an error result always carries -1 and never a
  genuine count. The last part fails: when the statement executes and only \<open>RowsAffected\<close>
  reports an error, the operation returns that error with the count \<open>RowsAffected\<close> gave.
\<close>

theorem RowsAffected_error_keeps_count:
  "fst (Delete spec_lib (users_adapter rows_error_db) None ''wolverine'' [])
     = (3, Some (DriverError ''RowsAffected not available''))
   \<and> fst (fst (Delete spec_lib (users_adapter rows_error_db) None ''wolverine'' [])) \<noteq> - 1
   \<and> snd (fst (Delete spec_lib (users_adapter rows_error_db) None ''wolverine'' [])) \<noteq> None"
  by (simp add: Delete_result sel_simps rows_error_db_def)

text \<open>
  C10, amended. A \<open>Create\<close>, \<open>Update\<close>, \<open>Patch\<close> or \<open>Delete\<close> whose \<open>ExecContext\<close> fails
  returns rowsAffected -1 together with that error. When \<open>ExecContext\<close> succeeds, the
  operation returns the count and the error of \<open>RowsAffected\<close> as they are: an error
  result carries -1 when the execution itself failed, and the count \<open>RowsAffected\<close> gave
  when only \<open>RowsAffected\<close> failed.
\<close>

theorem write_error_results:
  "(BuildToInsert l ''users'' u (BuildParam (Parameters r)) = (qi, ai)
      \<longrightarrow> (ExecContext (DB r) t (GetTx l c) qi ai = Inl e
            \<longrightarrow> fst (Create l r c u t) = (- 1, Some e))
          \<and> (ExecContext (DB r) t (GetTx l c) qi ai = Inr res
            \<longrightarrow> fst (Create l r c u t) = RowsAffected res))
   \<and> (BuildToUpdate l ''users'' u (BuildParam (Parameters r)) = (qu, au)
      \<longrightarrow> (ExecContext (DB r) t (GetTx l c) qu au = Inl e
            \<longrightarrow> fst (Update l r c u t) = (- 1, Some e))
          \<and> (ExecContext (DB r) t (GetTx l c) qu au = Inr res
            \<longrightarrow> fst (Update l r c u t) = RowsAffected res))
   \<and> (BuildToPatch l ''users'' (JSONToColumns l payload (JsonColumnMap (Parameters r)))
         (Keys (Parameters r)) (BuildParam (Parameters r)) = (qp, ap)
      \<longrightarrow> (ExecContext (DB r) t (GetTx l c) qp ap = Inl e
            \<longrightarrow> fst (Patch l r c payload t) = (- 1, Some e))
          \<and> (ExecContext (DB r) t (GetTx l c) qp ap = Inr res
            \<longrightarrow> fst (Patch l r c payload t) = RowsAffected res))
   \<and> (ExecContext (DB r) t (GetTx l c)
         (''delete from users where id = '' @ BuildParam (Parameters r) 1) [VStr ident] = Inl e
      \<longrightarrow> fst (Delete l r c ident t) = (- 1, Some e))
   \<and> (ExecContext (DB r) t (GetTx l c)
         (''delete from users where id = '' @ BuildParam (Parameters r) 1) [VStr ident] = Inr res
      \<longrightarrow> fst (Delete l r c ident t) = RowsAffected res)"
  by (simp add: Create_result Update_result Patch_result Delete_result)

theorem write_error_results_witness:
  "ExecContext (DB (users_adapter down_db)) [] (GetTx spec_lib None)
       ''insert into users (id, username, email, phone, date_of_birth) values ($1, $2, $3, $4, $5)''
       [VStr ''wolverine'', VStr ''james.howlett'', VStr ''james.howlett@gmail.com'',
        VStr ''0987654321'', VStr ''1974-11-16T16:59:59.999Z'']
     = Inl (DriverError ''connection refused'')
   \<and> fst (Create spec_lib (users_adapter down_db) None wolverine [])
       = (- 1, Some (DriverError ''connection refused''))
   \<and> fst (Update spec_lib (users_adapter down_db) None wolverine [])
       = (- 1, Some (DriverError ''connection refused''))
   \<and> fst (Patch spec_lib (users_adapter down_db) None
            [(''id'', VStr ''wolverine''), (''phone'', VStr ''0987654321'')] [])
       = (- 1, Some (DriverError ''connection refused''))
   \<and> fst (Delete spec_lib (users_adapter down_db) None ''wolverine'' [])
       = (- 1, Some (DriverError ''connection refused''))
   \<and> ExecContext (DB (users_adapter rows_error_db)) [] (GetTx spec_lib None)
       ''update users set phone = $1 where id = $2'' [VStr ''0987654321'', VStr ''wolverine'']
     = Inr \<lparr>RowsAffected = (3, Some (DriverError ''RowsAffected not available''))\<rparr>
   \<and> fst (Create spec_lib (users_adapter rows_error_db) None wolverine [])
       = (3, Some (DriverError ''RowsAffected not available''))
   \<and> fst (Update spec_lib (users_adapter rows_error_db) None wolverine [])
       = (3, Some (DriverError ''RowsAffected not available''))
   \<and> fst (Patch spec_lib (users_adapter rows_error_db) None
            [(''id'', VStr ''wolverine''), (''phone'', VStr ''0987654321'')] [])
       = (3, Some (DriverError ''RowsAffected not available''))"
  using write_error_results
    [where l = spec_lib and r = "users_adapter down_db" and c = None and t = "[]"
       and u = wolverine and e = "DriverError ''connection refused''"
       and res = "\<lparr>RowsAffected = (0, None)\<rparr>"
       and qi = "''insert into users (id, username, email, phone, date_of_birth) values ($1, $2, $3, $4, $5)''"
       and ai = "[VStr ''wolverine'', VStr ''james.howlett'', VStr ''james.howlett@gmail.com'',
                  VStr ''0987654321'', VStr ''1974-11-16T16:59:59.999Z'']"
       and qu = "''update users set username = $1, email = $2, phone = $3, date_of_birth = $4 where id = $5''"
       and au = "[VStr ''james.howlett'', VStr ''james.howlett@gmail.com'', VStr ''0987654321'',
                  VStr ''1974-11-16T16:59:59.999Z'', VStr ''wolverine'']"
       and payload = "[(''id'', VStr ''wolverine''), (''phone'', VStr ''0987654321'')]"
       and qp = "''update users set phone = $1 where id = $2''"
       and ap = "[VStr ''0987654321'', VStr ''wolverine'']"
       and ident = "''wolverine''"]
    write_error_results
    [where l = spec_lib and r = "users_adapter rows_error_db" and c = None and t = "[]"
       and u = wolverine and e = "DriverError ''connection refused''"
       and res = "\<lparr>RowsAffected = (3, Some (DriverError ''RowsAffected not available''))\<rparr>"
       and qi = "''insert into users (id, username, email, phone, date_of_birth) values ($1, $2, $3, $4, $5)''"
       and ai = "[VStr ''wolverine'', VStr ''james.howlett'', VStr ''james.howlett@gmail.com'',
                  VStr ''0987654321'', VStr ''1974-11-16T16:59:59.999Z'']"
       and qu = "''update users set username = $1, email = $2, phone = $3, date_of_birth = $4 where id = $5''"
       and au = "[VStr ''james.howlett'', VStr ''james.howlett@gmail.com'', VStr ''0987654321'',
                  VStr ''1974-11-16T16:59:59.999Z'', VStr ''wolverine'']"
       and payload = "[(''id'', VStr ''wolverine''), (''phone'', VStr ''0987654321'')]"
       and qp = "''update users set phone = $1 where id = $2''"
       and ap = "[VStr ''0987654321'', VStr ''wolverine'']"
       and ident = "''wolverine''"]
  by (simp add: sel_simps insert_wolverine update_wolverine patch_phone down_db_def
        rows_error_db_def)

text \<open>
  C7, as the specification states it: when the engine rejects a write with a constraint
  violation, the operation returns the failure classified as a \<open>ConstraintError\<close>. The
  adapter does not: \<open>Create\<close> of a user whose key exists returns the driver's own error
  value, which is no \<open>ConstraintError\<close>.
\<close>

theorem Create_duplicate_not_classified:
  "fst (Create spec_lib (users_adapter duplicate_db) None wolverine [])
     = (- 1, Some (DriverError ''duplicate key value violates unique constraint users_pkey''))
   \<and> \<not> returns_ConstraintError (fst (Create spec_lib (users_adapter duplicate_db) None wolverine []))"
proof -
  have "Create spec_lib (users_adapter duplicate_db) None wolverine []
          = ((- 1, Some (DriverError ''duplicate key value violates unique constraint users_pkey'')),
             [ExecCall Pool
                ''insert into users (id, username, email, phone, date_of_birth) values ($1, $2, $3, $4, $5)''
                [VStr ''wolverine'', VStr ''james.howlett'', VStr ''james.howlett@gmail.com'',
                 VStr ''0987654321'', VStr ''1974-11-16T16:59:59.999Z'']])"
    by (subst Create_result [OF insert_wolverine [folded users_parameters_sel(1)
            users_adapter_sel(3) [of duplicate_db]]])
       (simp add: sel_simps duplicate_db_def)
  then show ?thesis by (simp add: returns_ConstraintError_def)
qed

text \<open>
  C7, amended. When the engine rejects a write, \<open>Create\<close>, \<open>Update\<close>, \<open>Patch\<close> and
  \<open>Delete\<close> return the engine's own error value, unchanged, as a non-nil error: the
  adapter classifies nothing, so the returned error is a \<open>ConstraintError\<close> exactly when
  the value the engine gave already is one.
\<close>

theorem rejected_write_returns_engine_error:
  "(BuildToInsert l ''users'' u (BuildParam (Parameters r)) = (qi, ai)
      \<longrightarrow> ExecContext (DB r) t (GetTx l c) qi ai = Inl e
      \<longrightarrow> snd (fst (Create l r c u t)) = Some e
          \<and> returns_ConstraintError (fst (Create l r c u t)) = is_ConstraintError e)
   \<and> (BuildToUpdate l ''users'' u (BuildParam (Parameters r)) = (qu, au)
      \<longrightarrow> ExecContext (DB r) t (GetTx l c) qu au = Inl e
      \<longrightarrow> snd (fst (Update l r c u t)) = Some e
          \<and> returns_ConstraintError (fst (Update l r c u t)) = is_ConstraintError e)
   \<and> (BuildToPatch l ''users'' (JSONToColumns l payload (JsonColumnMap (Parameters r)))
         (Keys (Parameters r)) (BuildParam (Parameters r)) = (qp, ap)
      \<longrightarrow> ExecContext (DB r) t (GetTx l c) qp ap = Inl e
      \<longrightarrow> snd (fst (Patch l r c payload t)) = Some e
          \<and> returns_ConstraintError (fst (Patch l r c payload t)) = is_ConstraintError e)
   \<and> (ExecContext (DB r) t (GetTx l c)
         (''delete from users where id = '' @ BuildParam (Parameters r) 1) [VStr ident] = Inl e
      \<longrightarrow> snd (fst (Delete l r c ident t)) = Some e
          \<and> returns_ConstraintError (fst (Delete l r c ident t)) = is_ConstraintError e)"
  by (simp add: Create_result Update_result Patch_result Delete_result
        returns_ConstraintError_def)

theorem rejected_write_returns_engine_error_witness:
  "ExecContext (DB (users_adapter duplicate_db)) [] (GetTx spec_lib None)
       ''insert into users (id, username, email, phone, date_of_birth) values ($1, $2, $3, $4, $5)''
       [VStr ''wolverine'', VStr ''james.howlett'', VStr ''james.howlett@gmail.com'',
        VStr ''0987654321'', VStr ''1974-11-16T16:59:59.999Z'']
     = Inl (DriverError ''duplicate key value violates unique constraint users_pkey'')
   \<and> snd (fst (Create spec_lib (users_adapter duplicate_db) None wolverine []))
       = Some (DriverError ''duplicate key value violates unique constraint users_pkey'')
   \<and> snd (fst (Update spec_lib (users_adapter duplicate_db) None wolverine []))
       = Some (DriverError ''duplicate key value violates unique constraint users_pkey'')
   \<and> snd (fst (Patch spec_lib (users_adapter duplicate_db) None
            [(''id'', VStr ''wolverine''), (''phone'', VStr ''0987654321'')] []))
       = Some (DriverError ''duplicate key value violates unique constraint users_pkey'')
   \<and> snd (fst (Delete spec_lib (users_adapter duplicate_db) None ''wolverine'' []))
       = Some (DriverError ''duplicate key value violates unique constraint users_pkey'')"
  using rejected_write_returns_engine_error
    [where l = spec_lib and r = "users_adapter duplicate_db" and c = None and t = "[]"
       and u = wolverine
       and e = "DriverError ''duplicate key value violates unique constraint users_pkey''"
       and qi = "''insert into users (id, username, email, phone, date_of_birth) values ($1, $2, $3, $4, $5)''"
       and ai = "[VStr ''wolverine'', VStr ''james.howlett'', VStr ''james.howlett@gmail.com'',
                  VStr ''0987654321'', VStr ''1974-11-16T16:59:59.999Z'']"
       and qu = "''update users set username = $1, email = $2, phone = $3, date_of_birth = $4 where id = $5''"
       and au = "[VStr ''james.howlett'', VStr ''james.howlett@gmail.com'', VStr ''0987654321'',
                  VStr ''1974-11-16T16:59:59.999Z'', VStr ''wolverine'']"
       and payload = "[(''id'', VStr ''wolverine''), (''phone'', VStr ''0987654321'')]"
       and qp = "''update users set phone = $1 where id = $2''"
       and ap = "[VStr ''0987654321'', VStr ''wolverine'']"
       and ident = "''wolverine''"]
  by (simp add: sel_simps insert_wolverine update_wolverine patch_phone duplicate_db_def)

section \<open>Point lookup\<close>

text \<open>
  C9. For every id that no row matches (the lookup runs without error and yields no row),
  \<open>Load\<close> returns a nil record pointer together with a nil error.
\<close>

theorem Load_no_row_is_nil_nil:
  assumes "Query (DB r) t (Map (Parameters r))
             (''select '' @ Fields (Parameters r) @ '' from users where id = ''
                @ BuildParam (Parameters r) 1 @ '' limit 1'') [VStr ident] = ([], None)"
  shows "fst (Load r c ident t) = (None, None)"
  using assms by (simp add: Load_def Let_def)

theorem Load_no_row_is_nil_nil_witness:
  "Query (DB (users_adapter no_match_db)) [] (Map (Parameters (users_adapter no_match_db)))
       (''select '' @ Fields (Parameters (users_adapter no_match_db))
          @ '' from users where id = ''
          @ BuildParam (Parameters (users_adapter no_match_db)) 1 @ '' limit 1'')
       [VStr ''deadpool''] = ([], None)
   \<and> fst (Load (users_adapter no_match_db) None ''deadpool'' []) = (None, None)"
proof -
  have h: "Query (DB (users_adapter no_match_db)) [] (Map (Parameters (users_adapter no_match_db)))
       (''select '' @ Fields (Parameters (users_adapter no_match_db))
          @ '' from users where id = ''
          @ BuildParam (Parameters (users_adapter no_match_db)) 1 @ '' limit 1'')
       [VStr ''deadpool''] = ([], None)"
    by (simp add: users_adapter_sel no_match_db_def fixed_db_sel)
  show ?thesis using h Load_no_row_is_nil_nil [OF h] by simp
qed

section \<open>The WHERE clause of the mutating statements\<close>

text \<open>
  The patch builder with a composite key: both key columns, in the order given, AND-ed.
\<close>

lemma patch_composite_key:
  "fst (BuildToPatch_spec ''users''
          [(''company_id'', VStr ''marvel''), (''user_id'', VStr ''wolverine''),
           (''phone'', VStr ''0987654321'')]
          [''company_id'', ''user_id''] BuildDollarParam)
     = ''update users set phone = $1 where company_id = $2 and user_id = $3''
   \<and> where_clause (fst (BuildToPatch_spec ''users''
          [(''company_id'', VStr ''marvel''), (''user_id'', VStr ''wolverine''),
           (''phone'', VStr ''0987654321'')]
          [''company_id'', ''user_id''] BuildDollarParam))
     = where_of_keys BuildDollarParam 2 [''company_id'', ''user_id'']"
  by (simp add: BuildToPatch_spec_def where_of_keys_def dollar)

text \<open>
  C2. The WHERE clause of every update, patch and delete statement the adapter executes
  contains exactly the primary-key columns, AND-ed, in metadata order. Column names and
  placeholders are words. The update and patch statements are those of the builders as
  the specification describes them: the update selects by the key columns of the record
  type, the patch by the metadata's key columns \<open>r.Keys\<close>, however many there are. The
  delete statement compares the column \<open>id\<close> with the first placeholder, which is the
  key list of the users metadata.
\<close>

theorem mutating_statements_where:
  assumes bp: "\<forall>i. is_word (BuildParam (Parameters r) i)"
    and cols: "list_all is_word (map snd (JsonColumnMap (Parameters r)))"
  shows "where_clause (statement_of (last (snd (Update spec_lib r c u t))))
           = where_of_keys (BuildParam (Parameters r)) 5 user_keys
         \<and> where_clause (statement_of (last (snd (Patch spec_lib r c payload t))))
             = where_of_keys (BuildParam (Parameters r))
                 (1 + int (length (filter (\<lambda>(k, v). k \<notin> set (Keys (Parameters r)))
                     (JSONToColumns spec_lib payload (JsonColumnMap (Parameters r))))))
                 (Keys (Parameters r))
         \<and> (Keys (Parameters r) = user_keys
            \<longrightarrow> where_clause (statement_of (last (snd (Delete l r c ident t))))
                = where_of_keys (BuildParam (Parameters r)) 1 (Keys (Parameters r)))"
proof -
  have lib: "BuildToUpdate spec_lib = BuildToUpdate_spec" "BuildToPatch spec_lib = BuildToPatch_spec"
    "JSONToColumns spec_lib = JSONToColumns_spec"
    by (simp_all add: spec_lib_def)
  have u: "where_clause (statement_of (last (snd (Update spec_lib r c u t))))
             = where_of_keys (BuildParam (Parameters r)) 5 user_keys"
    by (simp add: Update_result [OF surjective_pairing] lib BuildToUpdate_spec_where [OF bp])
  have k: "\<forall>k \<in> set (map fst (JSONToColumns_spec payload (JsonColumnMap (Parameters r)))).
             is_word k"
  proof
    fix k assume "k \<in> set (map fst (JSONToColumns_spec payload (JsonColumnMap (Parameters r))))"
    then have "k \<in> set (map snd (JsonColumnMap (Parameters r)))"
      by (rule JSONToColumns_spec_columns)
    with cols show "is_word k" by (auto simp: list_all_iff)
  qed
  have p: "where_clause (statement_of (last (snd (Patch spec_lib r c payload t))))
             = where_of_keys (BuildParam (Parameters r))
                 (1 + int (length (filter (\<lambda>(k, v). k \<notin> set (Keys (Parameters r)))
                     (JSONToColumns spec_lib payload (JsonColumnMap (Parameters r))))))
                 (Keys (Parameters r))"
    by (simp add: Patch_result [OF surjective_pairing] lib BuildToPatch_spec_where [OF bp k])
  have d: "where_clause (statement_of (last (snd (Delete l r c ident t))))
             = where_of_keys (BuildParam (Parameters r)) 1 [''id'']"
    by (simp add: Delete_result where_of_keys_def)
  from u p d show ?thesis by (simp add: user_keys_def)
qed

theorem mutating_statements_where_witness:
  "(\<forall>i. is_word (BuildParam (Parameters (users_adapter no_match_db)) i))
   \<and> list_all is_word (map snd (JsonColumnMap (Parameters (users_adapter no_match_db))))
   \<and> Keys (Parameters (users_adapter no_match_db)) = user_keys
   \<and> statement_of (last (snd (Update spec_lib (users_adapter no_match_db) None wolverine [])))
       = ''update users set username = $1, email = $2, phone = $3, date_of_birth = $4 where id = $5''
   \<and> where_clause (statement_of (last (snd (Update spec_lib (users_adapter no_match_db) None
         wolverine [])))) = ''id = $5''
   \<and> statement_of (last (snd (Patch spec_lib (users_adapter no_match_db) None
         [(''id'', VStr ''wolverine''), (''phone'', VStr ''0987654321'')] [])))
       = ''update users set phone = $1 where id = $2''
   \<and> where_clause (statement_of (last (snd (Patch spec_lib (users_adapter no_match_db) None
         [(''id'', VStr ''wolverine''), (''phone'', VStr ''0987654321'')] [])))) = ''id = $2''
   \<and> where_clause (statement_of (last (snd (Delete spec_lib (users_adapter no_match_db) None
         ''wolverine'' [])))) = ''id = $1''"
proof -
  let ?r = "users_adapter no_match_db"
  let ?p = "[(''id'', VStr ''wolverine''), (''phone'', VStr ''0987654321'')]"
  have bp: "\<forall>i. is_word (BuildParam (Parameters ?r) i)"
    by (simp add: users_adapter_sel users_parameters_sel BuildDollarParam_is_word)
  have cols: "list_all is_word (map snd (JsonColumnMap (Parameters ?r)))"
    by (simp add: users_adapter_sel users_parameters_def is_word_def)
  have keys: "Keys (Parameters ?r) = user_keys"
    by (simp add: users_adapter_sel users_parameters_sel user_keys_def)
  have su: "statement_of (last (snd (Update spec_lib ?r None wolverine [])))
       = ''update users set username = $1, email = $2, phone = $3, date_of_birth = $4 where id = $5''"
    by (simp add: Update_result [OF surjective_pairing] sel_simps update_wolverine)
  have sp: "statement_of (last (snd (Patch spec_lib ?r None ?p [])))
       = ''update users set phone = $1 where id = $2''"
    by (simp add: Patch_result [OF surjective_pairing] sel_simps patch_phone)
  have n: "length (filter (\<lambda>(k, v). k \<notin> set (Keys (Parameters ?r)))
             (JSONToColumns spec_lib ?p (JsonColumnMap (Parameters ?r)))) = 1"
    by (simp add: users_adapter_sel users_parameters_def spec_lib_def JSONToColumns_spec_def)
  have w: "where_of_keys BuildDollarParam 5 [''id''] = ''id = $5''"
    "where_of_keys BuildDollarParam 2 [''id''] = ''id = $2''"
    "where_of_keys BuildDollarParam 1 [''id''] = ''id = $1''"
    by (simp_all add: where_of_keys_def user_keys_def dollar)
  note th = mutating_statements_where
    [OF bp cols, of None wolverine "[]" ?p spec_lib "''wolverine''", unfolded n]
  from th have "where_clause (statement_of (last (snd (Update spec_lib ?r None wolverine [])))) = ''id = $5''"
    and "where_clause (statement_of (last (snd (Patch spec_lib ?r None ?p [])))) = ''id = $2''"
    and "where_clause (statement_of (last (snd (Delete spec_lib ?r None ''wolverine'' [])))) = ''id = $1''"
    by (simp_all add: w keys users_adapter_sel users_parameters_sel user_keys_def)
  with bp cols keys su sp show ?thesis by simp
qed

section \<open>Patch\<close>

text \<open>
  C4, as the specification states it: \<open>Patch\<close> with an empty payload returns 0 rows
  affected and issues no SQL statement. The adapter has no such short cut: even on a
  database that answers "no row affected", one statement is executed.
\<close>

theorem Patch_empty_payload_issues_statement:
  "Patch spec_lib (users_adapter no_match_db) None [] []
     = ((0, None), [ExecCall Pool ''update users set  where id = $1'' [VNil]])
   \<and> snd (Patch spec_lib (users_adapter no_match_db) None [] []) \<noteq> []"
proof -
  have "Patch spec_lib (users_adapter no_match_db) None [] []
          = ((0, None), [ExecCall Pool ''update users set  where id = $1'' [VNil]])"
    by (subst Patch_result [where q = "''update users set  where id = $1''" and a = "[VNil]"])
       (simp_all add: sel_simps patch_empty no_match_db_def)
  then show ?thesis by simp
qed

text \<open>
  C4, amended. \<open>Patch\<close> with an empty payload is not a no-op: it issues exactly one SQL
  statement, the one \<open>BuildToPatch\<close> builds from the columns of the empty payload, and
  returns the outcome of executing it (the count and error of \<open>RowsAffected\<close>, or -1 with
  the error of the execution).
\<close>

theorem Patch_empty_payload_executes:
  assumes "BuildToPatch l ''users'' (JSONToColumns l [] (JsonColumnMap (Parameters r)))
             (Keys (Parameters r)) (BuildParam (Parameters r)) = (q, a)"
  shows "snd (Patch l r c [] t) = t @ [ExecCall (GetTx l c) q a]
         \<and> fst (Patch l r c [] t)
             = (case ExecContext (DB r) t (GetTx l c) q a of
                  Inl e \<Rightarrow> (- 1, Some e) | Inr res \<Rightarrow> RowsAffected res)"
  by (simp add: Patch_result [OF assms])

theorem Patch_empty_payload_executes_witness:
  "BuildToPatch spec_lib ''users''
       (JSONToColumns spec_lib [] (JsonColumnMap (Parameters (users_adapter down_db))))
       (Keys (Parameters (users_adapter down_db))) (BuildParam (Parameters (users_adapter down_db)))
     = (''update users set  where id = $1'', [VNil])
   \<and> snd (Patch spec_lib (users_adapter down_db) None [] [])
       = [ExecCall Pool ''update users set  where id = $1'' [VNil]]
   \<and> fst (Patch spec_lib (users_adapter down_db) None [] [])
       = (- 1, Some (DriverError ''connection refused''))"
proof -
  have h: "BuildToPatch spec_lib ''users''
       (JSONToColumns spec_lib [] (JsonColumnMap (Parameters (users_adapter down_db))))
       (Keys (Parameters (users_adapter down_db))) (BuildParam (Parameters (users_adapter down_db)))
     = (''update users set  where id = $1'', [VNil])"
    by (simp add: sel_simps patch_empty)
  show ?thesis
    using h Patch_empty_payload_executes [OF h, of None "[]"]
    by (simp add: sel_simps down_db_def)
qed

text \<open>
  C5, as the specification states it: a payload with a key that maps to no declared column
  makes \<open>Patch\<close> fail with a \<open>ValidationError\<close>, and no SQL statement is issued. The
  adapter rejects nothing: with the unknown key \<open>unknownField\<close> in the payload, the
  statement is executed and \<open>Patch\<close> returns the row count with a nil error.
\<close>

theorem Patch_unknown_key_is_executed:
  "Patch spec_lib (users_adapter one_row_db) None
       [(''id'', VStr ''wolverine''), (''phone'', VStr ''0987654321''), (''unknownField'', VInt 1)] []
     = ((1, None),
        [ExecCall Pool ''update users set phone = $1 where id = $2''
           [VStr ''0987654321'', VStr ''wolverine'']])"
  by (subst Patch_result [where q = "''update users set phone = $1 where id = $2''"
          and a = "[VStr ''0987654321'', VStr ''wolverine'']"])
     (simp_all add: sel_simps patch_unknown one_row_db_def)

text \<open>
  C5, amended. For every \<open>Patch\<close> payload that contains a key mapping to no declared
  column, \<open>Patch\<close> itself rejects nothing: it issues exactly one SQL statement, the one
  \<open>BuildToPatch\<close> builds from what \<open>JSONToColumns\<close> returns for the payload, and its result
  is the outcome of executing that statement; it fails only with the error of the
  execution (and -1) or of \<open>RowsAffected\<close>.
\<close>

theorem Patch_unknown_key_executes:
  assumes "\<exists>k \<in> set (map fst payload). map_of (JsonColumnMap (Parameters r)) k = None"
    and "BuildToPatch l ''users'' (JSONToColumns l payload (JsonColumnMap (Parameters r)))
           (Keys (Parameters r)) (BuildParam (Parameters r)) = (q, a)"
  shows "snd (Patch l r c payload t) = t @ [ExecCall (GetTx l c) q a]
         \<and> fst (Patch l r c payload t)
             = (case ExecContext (DB r) t (GetTx l c) q a of
                  Inl e \<Rightarrow> (- 1, Some e) | Inr res \<Rightarrow> RowsAffected res)"
  by (simp add: Patch_result [OF assms(2)])

theorem Patch_unknown_key_executes_witness:
  "(\<exists>k \<in> set (map fst [(''id'', VStr ''wolverine''), (''phone'', VStr ''0987654321''),
                        (''unknownField'', VInt 1)]).
       map_of (JsonColumnMap (Parameters (users_adapter no_match_db))) k = None)
   \<and> snd (Patch spec_lib (users_adapter no_match_db) None
        [(''id'', VStr ''wolverine''), (''phone'', VStr ''0987654321''), (''unknownField'', VInt 1)] [])
       = [ExecCall Pool ''update users set phone = $1 where id = $2''
            [VStr ''0987654321'', VStr ''wolverine'']]
   \<and> fst (Patch spec_lib (users_adapter no_match_db) None
        [(''id'', VStr ''wolverine''), (''phone'', VStr ''0987654321''), (''unknownField'', VInt 1)] [])
       = (0, None)"
proof -
  let ?p = "[(''id'', VStr ''wolverine''), (''phone'', VStr ''0987654321''),
             (''unknownField'', VInt 1)]"
  have k: "\<exists>k \<in> set (map fst ?p).
             map_of (JsonColumnMap (Parameters (users_adapter no_match_db))) k = None"
    by (simp add: users_adapter_sel users_parameters_def)
  have h: "BuildToPatch spec_lib ''users''
       (JSONToColumns spec_lib ?p (JsonColumnMap (Parameters (users_adapter no_match_db))))
       (Keys (Parameters (users_adapter no_match_db)))
       (BuildParam (Parameters (users_adapter no_match_db)))
     = (''update users set phone = $1 where id = $2'', [VStr ''0987654321'', VStr ''wolverine''])"
    by (simp add: sel_simps patch_unknown)
  show ?thesis
    using k Patch_unknown_key_executes [OF k h, of None "[]"]
    by (simp add: sel_simps no_match_db_def)
qed

section \<open>Paging\<close>

text \<open>
  C8. For every limit and page the search offset is \<open>limit * (max(page, 1) - 1)\<close>, in
  \<open>int64\<close> arithmetic; limit 20 and page 1 give offset 0, limit 20 and page 3 give offset
  40; and this is the offset with which the handler's search calls the service.
\<close>

theorem search_offset:
  "GetOffset limit page = word_of_int (sint limit * (max (sint page) 1 - 1))
   \<and> GetOffset 20 1 = 0 \<and> GetOffset 20 3 = 40
   \<and> (snd (decode req empty_filter) = None
      \<longrightarrow> Handler_Search decode svc req t =
            (let f = fst (decode req empty_filter);
                 res = svc (Ctx req) f (Limit f)
                         (word_of_int (sint (Limit f) * (max (sint (Page f)) 1 - 1))) t
             in case snd (snd (fst res)) of
                  Some e \<Rightarrow> (HttpError (Error e) 500, snd res)
                | None \<Rightarrow> (JSON 200 (fst (fst res)) (fst (snd (fst res))), snd res)))"
proof -
  have f: "GetOffset l p = word_of_int (sint l * (max (sint p) 1 - 1))" for l p
    by (simp add: GetOffset_def max64_def max_def wi_hom_syms)
  have e: "GetOffset 20 1 = 0" "GetOffset 20 3 = 40"
    by (simp_all add: GetOffset_def max64_def)
  have h: "Handler_Search decode svc req t =
            (let f = fst (decode req empty_filter);
                 res = svc (Ctx req) f (Limit f)
                         (word_of_int (sint (Limit f) * (max (sint (Page f)) 1 - 1))) t
             in case snd (snd (fst res)) of
                  Some e \<Rightarrow> (HttpError (Error e) 500, snd res)
                | None \<Rightarrow> (JSON 200 (fst (fst res)) (fst (snd (fst res))), snd res))"
    if "snd (decode req empty_filter) = None"
    using that
    by (cases "decode req empty_filter")
       (auto simp add: Handler_Search_def Let_def f split: prod.splits option.splits)
  from f e h show ?thesis by blast
qed

theorem search_offset_witness:
  "snd (tony_decode tony_request empty_filter) = None
   \<and> Limit (fst (tony_decode tony_request empty_filter)) = 20
   \<and> Page (fst (tony_decode tony_request empty_filter)) = 3
   \<and> GetOffset 20 3 = 40
   \<and> Handler_Search tony_decode (Search spec_lib (users_adapter page_db)) tony_request []
       = (JSON 200 [wolverine] 41,
          [QueryRowCall ''select count(*) from users where email like $1'' [VStr ''tony%''],
           QueryCall ''select * from users where email like $1 limit 20 offset 40''
             [VStr ''tony%'']])"
proof -
  let ?f = "empty_filter\<lparr>Page := 3, Limit := 20, EmailPrefix := Some ''tony''\<rparr>"
  have d: "tony_decode tony_request empty_filter = (?f, None)"
    by (simp add: tony_decode_def)
  have c: "Ctx tony_request = None"
    by (simp add: tony_request_def)
  have q: "email_BuildQuery ?f
             = (''select * from users where email like $1'', [VStr ''tony%''])"
    by (simp add: email_BuildQuery_def empty_filter_def)
  have cq: "BuildCountQuery spec_lib ''select * from users where email like $1''
              = ''select count(*) from users where email like $1''"
    by (simp add: spec_lib_def BuildCountQuery_spec_def)
  have pq: "BuildPagingQuery spec_lib ''select * from users where email like $1'' 20 40
              = ''select * from users where email like $1 limit 20 offset 40''"
    by (simp add: spec_lib_def BuildPagingQuery_spec_def FormatInt_def string_of_nat.simps)
  have s: "Search spec_lib (users_adapter page_db) None ?f 20 40 []
             = (([wolverine], 41, None),
                [QueryRowCall ''select count(*) from users where email like $1'' [VStr ''tony%''],
                 QueryCall ''select * from users where email like $1 limit 20 offset 40''
                   [VStr ''tony%'']])"
    by (simp add: Search_positive Let_def users_adapter_sel q cq pq page_db_def fixed_db_sel
          count_row_def)
  show ?thesis
    using search_offset [of 20 3 tony_decode tony_request
        "Search spec_lib (users_adapter page_db)" "[]"]
    by (simp add: d s c)
qed

end
